theory Spec2Isabelle
  imports Complex_Main "HOL-Library.AList" "HOL-Library.Multiset"
begin

section \<open>Data model (app/models.py)\<close>

text \<open>
  The enums \<open>EnvName\<close> and \<open>EnvState\<close> are datatypes whose constructors are named after
  the enum values (\<open>'NotStarted'\<close>, \<open>'FormsRaised'\<close>, ...). A \<open>datetime\<close> is an integer
  number of time units, an \<open>HttpUrl\<close> is a string. Field names that occur in several
  classes of the source carry a prefix (\<open>ticket_id\<close> for \<open>TicketRef.id\<close>, ...), since
  record fields are global constants.
\<close>

datatype EnvName = Dev | Staging | Prod

datatype EnvState =
    NotStarted | FormsRaised | CredsIssued | AccessProvisioned
  | Validated | SignoffSent | Approved | Complete
  | Blocked | ChangesRequested | Abandoned

fun EnvName_value :: "EnvName \<Rightarrow> string" where
  "EnvName_value Dev = ''dev''"
| "EnvName_value Staging = ''staging''"
| "EnvName_value Prod = ''prod''"

fun EnvState_value :: "EnvState \<Rightarrow> string" where
  "EnvState_value NotStarted = ''NotStarted''"
| "EnvState_value FormsRaised = ''FormsRaised''"
| "EnvState_value CredsIssued = ''CredsIssued''"
| "EnvState_value AccessProvisioned = ''AccessProvisioned''"
| "EnvState_value Validated = ''Validated''"
| "EnvState_value SignoffSent = ''SignoffSent''"
| "EnvState_value Approved = ''Approved''"
| "EnvState_value Complete = ''Complete''"
| "EnvState_value Blocked = ''Blocked''"
| "EnvState_value ChangesRequested = ''ChangesRequested''"
| "EnvState_value Abandoned = ''Abandoned''"

record TicketRef =
  ticket_system :: string
  ticket_id :: string
  ticket_url :: "string option"
  ticket_kind :: string
  ticket_status :: string
  ticket_created_at :: int

record SecretRef =
  secret_name :: string
  secret_mask :: string
  secret_created_at :: int

record ScreenshotRef =
  shot_key :: string
  shot_label :: string
  shot_url :: "string option"
  shot_uploaded_at :: int

record Evidence =
  tickets :: "TicketRef list"
  secret :: "SecretRef option"
  screenshots :: "ScreenshotRef list"
  emails :: "string list"
  evidence_notes :: "string list"

record RedirectUris =
  web_callback :: string
  post_logout :: "string option"
  api_callback :: "string option"

record PeopleSet =
  lanids :: "string list"
  people_approvers :: "string list"
  contacts :: "(string \<times> string) list"

record Environment =
  env_name :: EnvName
  env_state :: EnvState
  env_evidence :: Evidence
  redirect_uris :: "RedirectUris option"
  people :: PeopleSet
  last_updated :: int

text \<open>
  \<open>ClientThread.environments\<close> is a Python dict: an association list in insertion
  order, read with \<open>map_of\<close>. Its values are mutated in place, which keeps the order.
\<close>

record ClientThread =
  thread_id :: string
  display_name :: string
  environments :: "(EnvName \<times> Environment) list"
  owner :: string
  created_by :: string
  created_at :: int
  last_update :: int
  blockers :: "string list"
  next_actions :: "string list"
  metadata :: "(string \<times> string) list"

definition Evidence_default :: Evidence where
  "Evidence_default =
     \<lparr>tickets = [], secret = None, screenshots = [], emails = [], evidence_notes = []\<rparr>"

definition PeopleSet_default :: PeopleSet where
  "PeopleSet_default = \<lparr>lanids = [], people_approvers = [], contacts = []\<rparr>"

text \<open>\<open>Environment(name=n)\<close>, created at time \<open>now\<close>: every other field takes its default.\<close>

definition Environment_init :: "EnvName \<Rightarrow> int \<Rightarrow> Environment" where
  "Environment_init n now =
     \<lparr>env_name = n, env_state = NotStarted, env_evidence = Evidence_default,
      redirect_uris = None, people = PeopleSet_default, last_updated = now\<rparr>"

text \<open>
  \<open>ClientThread.__init__\<close>. The clock \<open>utcnow\<close> gives the value of the k-th call of
  \<open>datetime.utcnow()\<close> that a construction or an operation makes, counted from 0. The
  body of \<open>__init__\<close> is \<open>fill_environments\<close>: the three environments are filled in
  only when the dict is empty (\<open>if not self.environments\<close>), each \<open>Environment(name=...)\<close>
  drawing its \<open>last_updated\<close> from the clock, from read \<open>k\<close> on.

  In \<open>ClientThread_init\<close> the caller's keyword arguments are the parameters; an
  \<open>environments\<close> argument that is left out is \<open>None\<close> and takes the default factory's
  empty dict, and the default factories of \<open>created_at\<close> and \<open>last_update\<close> are clock
  reads 0 and 1.
\<close>

definition fill_environments :: "(nat \<Rightarrow> int) \<Rightarrow> nat \<Rightarrow> ClientThread \<Rightarrow> ClientThread" where
  "fill_environments utcnow k self =
     (if environments self = []
      then self\<lparr>environments :=
             [(Dev, Environment_init Dev (utcnow k)),
              (Staging, Environment_init Staging (utcnow (k + 1))),
              (Prod, Environment_init Prod (utcnow (k + 2)))]\<rparr>
      else self)"

definition ClientThread_init ::
  "string \<Rightarrow> string \<Rightarrow> (EnvName \<times> Environment) list option \<Rightarrow> string \<Rightarrow> string
     \<Rightarrow> (nat \<Rightarrow> int) \<Rightarrow> ClientThread" where
  "ClientThread_init tid dname envs_arg own creator utcnow =
     fill_environments utcnow 2
       \<lparr>thread_id = tid, display_name = dname,
        environments = (case envs_arg of None \<Rightarrow> [] | Some d \<Rightarrow> d),
        owner = own, created_by = creator, created_at = utcnow 0, last_update = utcnow 1,
        blockers = [], next_actions = [], metadata = []\<rparr>"

section \<open>State machine (app/state_machine.py)\<close>

text \<open>
  Exceptions are values:
  \<^item> \<open>NotInList\<close>: the \<open>ValueError\<close> of \<open>list.index\<close> for an element that is not in
    the list;
  \<^item> \<open>EnvKeyError k\<close>: the \<open>KeyError\<close> of \<open>thread.environments[k]\<close>;
  \<^item> \<open>RepoUnavailable\<close>: \<open>ValueError\<close> "Thread repository not available";
  \<^item> \<open>ThreadNotFound t\<close>: \<open>ValueError\<close> "Thread t not found";
  \<^item> \<open>EnvironmentNotFound e t\<close>: \<open>ValueError\<close> "Environment e not found in thread t";
  \<^item> \<open>InvalidStateTransition errors\<close>: \<open>ValueError\<close> "Invalid state transition: errors";
  \<^item> \<open>IntegrityError\<close>: the database's error for a primary key that exists already;
  \<^item> \<open>StatementError\<close>: the database layer's error at commit for a value of a JSON
    column that \<open>json.dumps\<close> cannot serialise.

  The messages that \<open>validate_transition\<close> collects are the constructors of
  \<open>verror\<close>, each carrying the values its f-string interpolates:
  \<^item> \<open>InvalidTransition c t\<close>: "Invalid transition: c (arrow) t";
  \<^item> \<open>NeedsTicket\<close>: "FormsRaised requires at least one ticket";
  \<^item> \<open>NeedsSecret\<close>: "CredsIssued requires client secret evidence";
  \<^item> \<open>NeedsGlamGwam e\<close>: "e requires GLAM/GWAM tickets for access provisioning";
  \<^item> \<open>NeedsScreenshots ls\<close>: "Validation requires screenshots: ls";
  \<^item> \<open>NeedsSignoffEmail\<close>: "SignoffSent requires email evidence";
  \<^item> \<open>NeedsApprovalEmail\<close>: "Approved requires approval email evidence";
  \<^item> \<open>NeedsPrevComplete e p\<close>: "Environment e requires p to be complete".
\<close>

datatype verror =
    InvalidTransition EnvState EnvState
  | NeedsTicket
  | NeedsSecret
  | NeedsGlamGwam EnvName
  | NeedsScreenshots "string list"
  | NeedsSignoffEmail
  | NeedsApprovalEmail
  | NeedsPrevComplete EnvName EnvName

datatype py_error =
    NotInList
  | EnvKeyError EnvName
  | RepoUnavailable
  | ThreadNotFound string
  | EnvironmentNotFound EnvName string
  | InvalidStateTransition "verror list"
  | IntegrityError
  | StatementError

definition STATE_ORDER :: "EnvState list" where
  "STATE_ORDER =
     [NotStarted, FormsRaised, CredsIssued, AccessProvisioned,
      Validated, SignoffSent, Approved, Complete]"

definition SPECIAL_STATES :: "EnvState set" where
  "SPECIAL_STATES = {Blocked, ChangesRequested, Abandoned}"

text \<open>\<open>list.index\<close>: the position of the first occurrence; \<open>None\<close> is the \<open>ValueError\<close>.\<close>

fun list_index :: "'a list \<Rightarrow> 'a \<Rightarrow> nat option" where
  "list_index [] x = None"
| "list_index (y # ys) x = (if y = x then Some 0 else map_option Suc (list_index ys x))"

text \<open>
  \<open>can_transition\<close>. In the \<open>changes_requested\<close> branch \<open>STATE_ORDER.index(current)\<close>
  stands outside any \<open>try\<close>, so its \<open>ValueError\<close> reaches the caller; in the last branch
  the \<open>except ValueError\<close> turns it into \<open>False\<close>.
\<close>

definition can_transition :: "EnvState \<Rightarrow> EnvState \<Rightarrow> py_error + bool" where
  "can_transition current target =
     (if target \<in> SPECIAL_STATES then Inr True
      else if current = ChangesRequested then
        (case list_index STATE_ORDER current of
           None \<Rightarrow> Inl NotInList
         | Some i \<Rightarrow> Inr (target \<in> set (take i STATE_ORDER)))
      else
        (case list_index STATE_ORDER current of
           None \<Rightarrow> Inr False
         | Some current_idx \<Rightarrow>
            (case list_index STATE_ORDER target of
               None \<Rightarrow> Inr False
             | Some target_idx \<Rightarrow> Inr (target_idx = current_idx + 1))))"

text \<open>
  \<open>validate_transition\<close>. The optional \<open>thread\<close> is an option; a model instance is
  always truthy, so \<open>and thread\<close> tests for \<open>None\<close>. \<open>thread.environments[prev_env]\<close>
  raises \<open>KeyError\<close> on a missing key.
\<close>

definition validate_transition ::
  "EnvState \<Rightarrow> EnvState \<Rightarrow> EnvName \<Rightarrow> Evidence \<Rightarrow> ClientThread option
     \<Rightarrow> py_error + (bool \<times> verror list)" where
  "validate_transition current target env evidence thread =
     (case can_transition current target of
        Inl e \<Rightarrow> Inl e
      | Inr False \<Rightarrow> Inr (False, [InvalidTransition current target])
      | Inr True \<Rightarrow>
         (if target = FormsRaised then
            (let errors = (if tickets evidence = [] then [NeedsTicket] else [])
             in Inr (errors = [], errors))
          else if target = CredsIssued then
            (let errors = (if secret evidence = None then [NeedsSecret] else [])
             in Inr (errors = [], errors))
          else if target = AccessProvisioned then
            (let errors =
               (if env \<in> set [Dev, Staging] then
                  (let glam_tickets =
                     filter (\<lambda>t. ticket_kind t \<in> set [''GLAM'', ''GWAM'']) (tickets evidence)
                   in if glam_tickets = [] then [NeedsGlamGwam env] else [])
                else [])
             in Inr (errors = [], errors))
          else if target = Validated then
            (let required_labels = [''login'', ''consent'', ''landing'', ''token''];
                 screenshot_labels = map shot_label (screenshots evidence);
                 missing_labels =
                   filter (\<lambda>label. label \<notin> set screenshot_labels) required_labels;
                 errors = (if missing_labels \<noteq> [] then [NeedsScreenshots missing_labels] else [])
             in Inr (errors = [], errors))
          else if target = SignoffSent then
            (let errors = (if emails evidence = [] then [NeedsSignoffEmail] else [])
             in Inr (errors = [], errors))
          else if target = Approved then
            (let errors = (if emails evidence = [] then [NeedsApprovalEmail] else [])
             in Inr (errors = [], errors))
          else if target = Complete then
            (case thread of
               None \<Rightarrow> Inr (True, [])
             | Some th \<Rightarrow>
                (if env \<in> set [Staging, Prod] then
                   (let prev_env = (if env = Staging then Dev else Staging)
                    in case map_of (environments th) prev_env of
                         None \<Rightarrow> Inl (EnvKeyError prev_env)
                       | Some prev \<Rightarrow>
                          (let errors =
                             (if env_state prev \<noteq> Complete
                              then [NeedsPrevComplete env prev_env] else [])
                           in Inr (errors = [], errors)))
                 else Inr (True, [])))
          else Inr (True, [])))"

definition get_next_actions :: "Environment \<Rightarrow> ClientThread \<Rightarrow> string list" where
  "get_next_actions env thread =
     (if env_state env = NotStarted then
        [''Create NSSR/OAuth ticket'',
         ''Create GLAM/GWAM tickets (if Dev/Staging)'',
         ''Generate redirect URIs'']
      else if env_state env = FormsRaised then [''Wait for credentials to be issued'']
      else if env_state env = CredsIssued then
        (if env_name env \<in> set [Dev, Staging] then [''Create GLAM/GWAM tickets''] else [])
          @ [''Test application sign-in'']
      else if env_state env = AccessProvisioned then
        [''Capture login screenshot'',
         ''Capture consent screenshot'',
         ''Capture landing page screenshot'',
         ''Capture token/session screenshot'']
      else if env_state env = Validated then
        [''Send sign-off email with screenshots and redirect URIs'']
      else if env_state env = SignoffSent then [''Wait for approval email'']
      else if env_state env = Approved then
        (if env_name env = Prod then [''Production ready - onboarding complete'']
         else [''Proceed to next environment''])
      else if env_state env = Blocked then [''Resolve blocker and retry'']
      else if env_state env = ChangesRequested then [''Address requested changes'']
      else [])"

definition get_blockers :: "Environment \<Rightarrow> ClientThread \<Rightarrow> string list" where
  "get_blockers env thread =
     (if env_state env = Blocked then
        [''Environment is blocked - manual intervention required'']
      else if env_state env = ChangesRequested then
        [''Changes requested - address feedback before proceeding'']
      else if env_state env = FormsRaised then
        map (\<lambda>ticket. ''Ticket '' @ ticket_id ticket @ '' ('' @ ticket_kind ticket
                         @ '') is still open'')
          (filter (\<lambda>ticket. ticket_status ticket = ''open'') (tickets (env_evidence env)))
      else if env_state env = SignoffSent then
        (if emails (env_evidence env) = [] then [''Waiting for sign-off approval''] else [])
      else [])"

text \<open>
  \<open>calculate_progress\<close>. Python's \<open>/\<close> on two ints returns the double nearest to the
  exact quotient; the model returns the exact quotient as a rational. The loop over
  \<open>thread.environments.values()\<close> is a fold over the accumulator \<open>completed_states\<close>;
  \<open>state in STATE_ORDER\<close> followed by \<open>STATE_ORDER.index(state)\<close> is one lookup.
\<close>

definition progress_step :: "Environment \<Rightarrow> nat \<Rightarrow> nat" where
  "progress_step env completed_states =
     (if env_state env = Complete then completed_states + length STATE_ORDER
      else (case list_index STATE_ORDER (env_state env) of
              Some i \<Rightarrow> completed_states + (i + 1)
            | None \<Rightarrow> completed_states))"

definition calculate_progress :: "ClientThread \<Rightarrow> rat" where
  "calculate_progress thread =
     (let total_states = length STATE_ORDER;
          completed_states = fold progress_step (map snd (environments thread)) 0;
          max_possible = total_states * length (environments thread)
      in if max_possible > 0
         then min (of_nat completed_states / of_nat max_possible) 1
         else 0)"

definition get_current_environment :: "ClientThread \<Rightarrow> py_error + EnvName option" where
  "get_current_environment thread =
     (case map_of (environments thread) Dev of
        None \<Rightarrow> Inl (EnvKeyError Dev)
      | Some d \<Rightarrow>
         if env_state d \<notin> set [Complete, Abandoned] then Inr (Some Dev)
         else (case map_of (environments thread) Staging of
                 None \<Rightarrow> Inl (EnvKeyError Staging)
               | Some s \<Rightarrow>
                  if env_state s \<notin> set [Complete, Abandoned] then Inr (Some Staging)
                  else (case map_of (environments thread) Prod of
                          None \<Rightarrow> Inl (EnvKeyError Prod)
                        | Some p \<Rightarrow>
                           if env_state p \<notin> set [Complete, Abandoned] then Inr (Some Prod)
                           else Inr None)))"

section \<open>Thread store (app/database.py)\<close>

text \<open>
  The values of a \<open>details\<close> dict: a string, an int, a list of strings, or the ISO text
  of a \<open>datetime\<close> (kept as the time itself).
\<close>

datatype detail = DStr string | DInt int | DStrs "string list" | DTime int

record AuditLog =
  audit_id :: "nat option"
  audit_thread_id :: string
  actor :: string
  action :: string
  details :: "(string \<times> detail) list"
  audit_created_at :: int

text \<open>
  The repository's tables. A row of \<open>threads\<close> is a thread id with the columns of its
  \<open>client_thread\<close> row and, as \<open>environments\<close>, its rows of \<open>environment_state\<close> by
  kind. The audit table numbers its rows from 1. \<open>get_thread\<close> queries the environment
  rows with no ordering: \<open>row_rank\<close> stands for the order in which this database
  returns them (rows come by increasing rank), so that any order can be had.
  \<open>db_now\<close> is what the database's \<open>now()\<close> returns during the operation.
\<close>

record ThreadRepository =
  threads :: "(string \<times> ClientThread) list"
  audit_log :: "AuditLog list"
  row_rank :: "EnvName \<Rightarrow> nat"
  db_now :: int

text \<open>
  An environment row is keyed by the dict key, and \<open>_deserialize_environment\<close> takes the
  environment's name from that key.
\<close>

definition env_row :: "EnvName \<times> Environment \<Rightarrow> EnvName \<times> Environment" where
  "env_row kv = (fst kv, (snd kv)\<lparr>env_name := fst kv\<rparr>)"

text \<open>
  \<open>_serialize_environment\<close> puts \<open>model_dump()\<close> of every ticket, of the secret, of
  every screenshot and of the redirect URIs into the row's JSON column. These dumps hold
  \<open>datetime\<close> and URL objects, which \<open>json.dumps\<close> rejects; emails, notes, people and the
  ISO text of \<open>last_updated\<close> are strings. So an environment can be written only when it
  has no ticket, secret, screenshot or redirect URIs; otherwise the commit raises. A
  stored row holds JSON, so an environment that cannot be serialised differs from its
  row and is written.
\<close>

definition json_serialisable :: "Environment \<Rightarrow> bool" where
  "json_serialisable env =
     (tickets (env_evidence env) = [] \<and> secret (env_evidence env) = None
      \<and> screenshots (env_evidence env) = [] \<and> redirect_uris env = None)"

definition upsert_rows ::
  "(EnvName \<times> Environment) list \<Rightarrow> (EnvName \<times> Environment) list
     \<Rightarrow> (EnvName \<times> Environment) list" where
  "upsert_rows envs rows =
     fold (\<lambda>kv rows. AList.update (fst kv) (snd (env_row kv)) rows) envs rows"


text \<open>
  \<open>get_thread\<close> passes the row's columns and the dict of the environment rows to
  \<open>ClientThread(...)\<close>, whose \<open>__init__\<close> fills in the three default environments when
  the thread has no environment row. Only then does it read the clock (three times);
  \<open>get_thread_reads\<close> is the number of reads it makes.
\<close>

definition get_thread :: "ThreadRepository \<Rightarrow> string \<Rightarrow> (nat \<Rightarrow> int) \<Rightarrow> ClientThread option" where
  "get_thread repo tid utcnow =
     map_option
       (\<lambda>thread_db.
          fill_environments utcnow 0
            (thread_db\<lparr>thread_id := tid,
                       environments :=
                         sort_key (\<lambda>kv. row_rank repo (fst kv)) (environments thread_db)\<rparr>))
       (map_of (threads repo) tid)"

definition get_thread_reads :: "ThreadRepository \<Rightarrow> string \<Rightarrow> nat" where
  "get_thread_reads repo tid =
     (case map_of (threads repo) tid of
        None \<Rightarrow> 0
      | Some thread_db \<Rightarrow> if environments thread_db = [] then 3 else 0)"

text \<open>
  \<open>update_thread\<close> assigns six columns of the thread row and, for every environment of
  the argument, updates the row of that key or adds one; it removes no row. Nothing is
  stored when the commit raises. The column \<open>last_update\<close> has \<open>onupdate=now()\<close>: when
  the assigned value is the stored one and another column changes, the database's time
  is stored.
\<close>

definition stored_last_update :: "ThreadRepository \<Rightarrow> ClientThread \<Rightarrow> ClientThread \<Rightarrow> int" where
  "stored_last_update repo thread_db thread =
     (if last_update thread \<noteq> last_update thread_db then last_update thread
      else if display_name thread \<noteq> display_name thread_db \<or> owner thread \<noteq> owner thread_db
              \<or> blockers thread \<noteq> blockers thread_db
              \<or> next_actions thread \<noteq> next_actions thread_db
              \<or> metadata thread \<noteq> metadata thread_db
      then db_now repo
      else last_update thread_db)"

definition update_thread :: "ThreadRepository \<Rightarrow> ClientThread \<Rightarrow> py_error + ThreadRepository" where
  "update_thread repo thread =
     (case map_of (threads repo) (thread_id thread) of
        None \<Rightarrow> Inl (ThreadNotFound (thread_id thread))
      | Some thread_db \<Rightarrow>
         if \<not> list_all json_serialisable (map snd (environments thread))
         then Inl StatementError
         else
           Inr (repo\<lparr>threads :=
             AList.update (thread_id thread)
               (thread_db\<lparr>display_name := display_name thread,
                          owner := owner thread,
                          last_update := stored_last_update repo thread_db thread,
                          blockers := blockers thread,
                          next_actions := next_actions thread,
                          metadata := metadata thread,
                          environments :=
                            upsert_rows (environments thread) (environments thread_db)\<rparr>)
               (threads repo)\<rparr>))"

definition add_audit_log :: "ThreadRepository \<Rightarrow> AuditLog \<Rightarrow> ThreadRepository" where
  "add_audit_log repo entry =
     repo\<lparr>audit_log := audit_log repo @
            [entry\<lparr>audit_id := Some (Suc (length (audit_log repo)))\<rparr>]\<rparr>"

section \<open>Orchestrator (app/tools.py)\<close>

text \<open>
  \<open>CtxState\<close> with the fields the operations below read (\<open>config\<close> is not read by them).
  An operation returns its result, or the exception it raises, together with the context
  as the operation leaves it. In \<open>update_env_state\<close> the clock reads of \<open>get_thread\<close>
  come first; the reads for \<open>env_obj.last_updated\<close>, \<open>thread.last_update\<close> and the audit
  entry's \<open>created_at\<close> follow them.
\<close>

record CtxState =
  ctx_user :: string
  thread_repo :: "ThreadRepository option"

definition update_env_state ::
  "CtxState \<Rightarrow> string \<Rightarrow> EnvName \<Rightarrow> EnvState \<Rightarrow> Evidence \<Rightarrow> string \<Rightarrow> (nat \<Rightarrow> int)
     \<Rightarrow> (py_error + bool) \<times> CtxState" where
  "update_env_state ctx tid env new_state evidence reason utcnow =
     (case thread_repo ctx of
        None \<Rightarrow> (Inl RepoUnavailable, ctx)
      | Some repo \<Rightarrow>
     (case get_thread repo tid utcnow of
        None \<Rightarrow> (Inl (ThreadNotFound tid), ctx)
      | Some thread \<Rightarrow>
     (case map_of (environments thread) env of
        None \<Rightarrow> (Inl (EnvironmentNotFound env tid), ctx)
      | Some env_obj \<Rightarrow>
     (case validate_transition (env_state env_obj) new_state env evidence (Some thread) of
        Inl e \<Rightarrow> (Inl e, ctx)
      | Inr (is_valid, errors) \<Rightarrow>
         if \<not> is_valid then (Inl (InvalidStateTransition errors), ctx)
         else
          (let env_obj1 = env_obj\<lparr>env_state := new_state, env_evidence := evidence,
                                   last_updated := utcnow (get_thread_reads repo tid)\<rparr>;
               thread1 = thread\<lparr>environments := AList.update env env_obj1 (environments thread),
                                last_update := utcnow (get_thread_reads repo tid + 1)\<rparr>;
               thread2 = thread1
                 \<lparr>blockers :=
                    concat (map (\<lambda>kv. get_blockers (snd kv) thread1) (environments thread1)),
                  next_actions :=
                    concat (map (\<lambda>kv. get_next_actions (snd kv) thread1) (environments thread1))\<rparr>
           in case update_thread repo thread2 of
                Inl e \<Rightarrow> (Inl e, ctx)
              | Inr repo1 \<Rightarrow>
                 (let entry =
                    \<lparr>audit_id = None, audit_thread_id = tid, actor = ctx_user ctx,
                     action = ''state_transition'',
                     details =
                       [(''environment'', DStr (EnvName_value env)),
                        (''from_state'', DStr (EnvState_value (env_state env_obj1))),
                        (''to_state'', DStr (EnvState_value new_state)),
                        (''reason'', DStr reason),
                        (''evidence_count'',
                           DInt (int (length (tickets evidence) + length (screenshots evidence)
                                      + length (emails evidence))))],
                     audit_created_at = utcnow (get_thread_reads repo tid + 2)\<rparr>
                  in (Inr True, ctx\<lparr>thread_repo := Some (add_audit_log repo1 entry)\<rparr>)))))))"


section \<open>Approval manager (app/hitl.py)\<close>

datatype ApprovalStatus = pending | approved | rejected | expired

datatype ApprovalType =
  ticket_creation | environment_progression | production_deployment | credential_issuance

fun ApprovalType_value :: "ApprovalType \<Rightarrow> string" where
  "ApprovalType_value ticket_creation = ''ticket_creation''"
| "ApprovalType_value environment_progression = ''environment_progression''"
| "ApprovalType_value production_deployment = ''production_deployment''"
| "ApprovalType_value credential_issuance = ''credential_issuance''"

record ApprovalRequest =
  approval_id :: string
  approval_thread_id :: string
  approval_environment :: EnvName
  approval_type :: ApprovalType
  title :: string
  description :: string
  approvers :: "string list"
  approval_evidence :: "(string \<times> detail) list"
  status :: ApprovalStatus
  approval_created_at :: int
  expires_at :: "int option"
  approved_by :: "string option"
  approved_at :: "int option"
  rejection_reason :: "string option"

text \<open>
  \<open>HITLManager\<close>: \<open>pending_approvals\<close> is a dict from ids to request objects, mutated in
  place. \<open>approval.expires_at and now > approval.expires_at\<close> is \<open>past_expiry\<close>: a
  \<open>datetime\<close> is always truthy, so the first conjunct tests for \<open>None\<close>. In
  \<open>approve_request\<close> the time compared is a clock read of its own, which the \<open>and\<close>
  makes only for a request that has an \<open>expires_at\<close>; \<open>expiry_reads\<close> counts it.
\<close>

record HITLManager =
  hitl_thread_repo :: "ThreadRepository option"
  pending_approvals :: "(string \<times> ApprovalRequest) list"
  approval_timeout_hours :: nat

definition past_expiry :: "ApprovalRequest \<Rightarrow> int \<Rightarrow> bool" where
  "past_expiry approval now = (case expires_at approval of None \<Rightarrow> False | Some e \<Rightarrow> now > e)"

definition expiry_reads :: "ApprovalRequest \<Rightarrow> nat" where
  "expiry_reads approval = (case expires_at approval of None \<Rightarrow> 0 | Some e \<Rightarrow> 1)"

definition hitl_log :: "HITLManager \<Rightarrow> AuditLog \<Rightarrow> HITLManager" where
  "hitl_log m entry =
     (case hitl_thread_repo m of
        None \<Rightarrow> m
      | Some repo \<Rightarrow> m\<lparr>hitl_thread_repo := Some (add_audit_log repo entry)\<rparr>)"

definition approve_request ::
  "HITLManager \<Rightarrow> string \<Rightarrow> string \<Rightarrow> string \<Rightarrow> (nat \<Rightarrow> int) \<Rightarrow> bool \<times> HITLManager" where
  "approve_request m aid approver comments utcnow =
     (case map_of (pending_approvals m) aid of
        None \<Rightarrow> (False, m)
      | Some approval \<Rightarrow>
         if status approval \<noteq> pending then (False, m)
         else if past_expiry approval (utcnow 0) then
           (False, m\<lparr>pending_approvals :=
                      AList.update aid (approval\<lparr>status := expired\<rparr>) (pending_approvals m)\<rparr>)
         else
           (let approval1 = approval\<lparr>status := approved, approved_by := Some approver,
                                      approved_at := Some (utcnow (expiry_reads approval))\<rparr>;
                m1 = m\<lparr>pending_approvals := AList.update aid approval1 (pending_approvals m)\<rparr>
            in (True,
                hitl_log m1
                  \<lparr>audit_id = None, audit_thread_id = approval_thread_id approval1,
                   actor = approver, action = ''approval_granted'',
                   details =
                     [(''approval_id'', DStr aid),
                      (''approval_type'', DStr (ApprovalType_value (approval_type approval1))),
                      (''environment'', DStr (EnvName_value (approval_environment approval1))),
                      (''comments'', DStr comments)],
                   audit_created_at = utcnow (expiry_reads approval + 1)\<rparr>)))"

definition reject_request ::
  "HITLManager \<Rightarrow> string \<Rightarrow> string \<Rightarrow> string \<Rightarrow> (nat \<Rightarrow> int) \<Rightarrow> bool \<times> HITLManager" where
  "reject_request m aid approver reason utcnow =
     (case map_of (pending_approvals m) aid of
        None \<Rightarrow> (False, m)
      | Some approval \<Rightarrow>
         if status approval \<noteq> pending then (False, m)
         else
           (let approval1 = approval\<lparr>status := rejected, approved_by := Some approver,
                                      approved_at := Some (utcnow 0),
                                      rejection_reason := Some reason\<rparr>;
                m1 = m\<lparr>pending_approvals := AList.update aid approval1 (pending_approvals m)\<rparr>
            in (True,
                hitl_log m1
                  \<lparr>audit_id = None, audit_thread_id = approval_thread_id approval1,
                   actor = approver, action = ''approval_rejected'',
                   details =
                     [(''approval_id'', DStr aid),
                      (''approval_type'', DStr (ApprovalType_value (approval_type approval1))),
                      (''environment'', DStr (EnvName_value (approval_environment approval1))),
                      (''reason'', DStr reason)],
                   audit_created_at = utcnow 1\<rparr>)))"

text \<open>
  \<open>get_pending_approvals\<close>. \<open>if thread_id\<close> holds for a string that is given and not
  empty; \<open>selected\<close> is that filter. The loop sets the status of every selected request
  that is past its expiry, whatever its status was; the objects are the dict's own, so
  the dict sees the change. The result is the selected requests that are then pending.
\<close>

definition selected :: "string option \<Rightarrow> ApprovalRequest \<Rightarrow> bool" where
  "selected tid_arg a =
     (case tid_arg of
        None \<Rightarrow> True
      | Some t \<Rightarrow> if t = [] then True else approval_thread_id a = t)"

definition get_pending_approvals ::
  "HITLManager \<Rightarrow> string option \<Rightarrow> (nat \<Rightarrow> int) \<Rightarrow> ApprovalRequest list \<times> HITLManager" where
  "get_pending_approvals m tid_arg utcnow =
     (let now = utcnow 0;
          visit = (\<lambda>a. if selected tid_arg a \<and> past_expiry a now
                        then a\<lparr>status := expired\<rparr> else a);
          approvals1 = map (\<lambda>kv. (fst kv, visit (snd kv))) (pending_approvals m);
          valid_approvals = filter (selected tid_arg) (map snd approvals1)
      in (filter (\<lambda>a. status a = pending) valid_approvals,
          m\<lparr>pending_approvals := approvals1\<rparr>))"

text \<open>
  \<open>check_expired_approvals\<close>: the loop over the dict's values, with the list \<open>expired\<close>,
  the repository and the number of clock reads made so far as its state. Reading \<open>now\<close>
  is clock read 0; every audit entry reads the clock once more.
\<close>

fun sweep ::
  "int \<Rightarrow> (nat \<Rightarrow> int) \<Rightarrow> (string \<times> ApprovalRequest) list
     \<Rightarrow> ApprovalRequest list \<times> ThreadRepository option \<times> nat
     \<Rightarrow> (string \<times> ApprovalRequest) list \<times> ApprovalRequest list \<times> ThreadRepository option \<times> nat"
where
  "sweep now utcnow [] acc = ([], acc)"
| "sweep now utcnow ((k, approval) # rest) (expired_acc, repo, reads) =
     (if status approval = pending \<and> past_expiry approval now then
        (let approval1 = approval\<lparr>status := expired\<rparr>;
             entry = \<lparr>audit_id = None, audit_thread_id = approval_thread_id approval1,
                      actor = ''system'', action = ''approval_expired'',
                      details =
                        [(''approval_id'', DStr (approval_id approval1)),
                         (''approval_type'', DStr (ApprovalType_value (approval_type approval1))),
                         (''environment'',
                            DStr (EnvName_value (approval_environment approval1))),
                         (''expired_at'', DTime now)],
                      audit_created_at = utcnow reads\<rparr>;
             acc1 = (case repo of
                       None \<Rightarrow> (expired_acc @ [approval1], None, reads)
                     | Some r \<Rightarrow>
                        (expired_acc @ [approval1], Some (add_audit_log r entry), Suc reads));
             res = sweep now utcnow rest acc1
         in ((k, approval1) # fst res, snd res))
      else
        (let res = sweep now utcnow rest (expired_acc, repo, reads)
         in ((k, approval) # fst res, snd res)))"

definition check_expired_approvals ::
  "HITLManager \<Rightarrow> (nat \<Rightarrow> int) \<Rightarrow> ApprovalRequest list \<times> HITLManager" where
  "check_expired_approvals m utcnow =
     (let res = sweep (utcnow 0) utcnow (pending_approvals m) ([], hitl_thread_repo m, 1)
      in (fst (snd res),
          m\<lparr>pending_approvals := fst res, hitl_thread_repo := fst (snd (snd res))\<rparr>))"

section \<open>Definitions used by the statements\<close>

text \<open>
  The score of one environment as the specification words it: the index of the state in
  the ordered progression plus 1, the full length for \<open>Complete\<close>, and 0 for a state that
  is not in the progression. \<open>spec_total\<close> is the sum over a thread's environments.
\<close>

definition spec_score :: "EnvState \<Rightarrow> nat" where
  "spec_score s =
     (if s = Complete then length STATE_ORDER
      else (case list_index STATE_ORDER s of Some i \<Rightarrow> i + 1 | None \<Rightarrow> 0))"

definition spec_total :: "ClientThread \<Rightarrow> nat" where
  "spec_total thread =
     sum_list (map (\<lambda>kv. spec_score (env_state (snd kv))) (environments thread))"

text \<open>The states of a thread's environments, by kind, in the order of the dict.\<close>

definition env_states :: "ClientThread \<Rightarrow> (EnvName \<times> EnvState) list" where
  "env_states thread = map (\<lambda>kv. (fst kv, env_state (snd kv))) (environments thread)"




text \<open>The \<open>details\<close> of the audit entries of a context's store, oldest first.\<close>

definition audit_details :: "CtxState \<Rightarrow> (string \<times> detail) list list" where
  "audit_details ctx =
     (case thread_repo ctx of None \<Rightarrow> [] | Some repo \<Rightarrow> map details (audit_log repo))"

text \<open>The status of the request with a given id, if the manager holds one.\<close>

definition status_of :: "HITLManager \<Rightarrow> string \<Rightarrow> ApprovalStatus option" where
  "status_of m aid = map_option status (map_of (pending_approvals m) aid)"

subsection \<open>Concrete inputs\<close>

definition ex_thread :: ClientThread where
  "ex_thread = ClientThread_init ''t1'' ''Acme'' None ''alice'' ''alice'' (\<lambda>k. 0)"

definition with_states :: "EnvState \<Rightarrow> EnvState \<Rightarrow> EnvState \<Rightarrow> ClientThread" where
  "with_states d s p =
     ex_thread\<lparr>environments :=
       [(Dev, (Environment_init Dev 0)\<lparr>env_state := d\<rparr>),
        (Staging, (Environment_init Staging 0)\<lparr>env_state := s\<rparr>),
        (Prod, (Environment_init Prod 0)\<lparr>env_state := p\<rparr>)]\<rparr>"

definition ex_ticket :: TicketRef where
  "ex_ticket =
     \<lparr>ticket_system = ''ServiceNow'', ticket_id = ''SN-12345'', ticket_url = None,
      ticket_kind = ''NSSR'', ticket_status = ''open'', ticket_created_at = 0\<rparr>"

definition ex_evidence :: Evidence where
  "ex_evidence = Evidence_default\<lparr>tickets := [ex_ticket]\<rparr>"

definition ex_repo :: ThreadRepository where
  "ex_repo =
     \<lparr>threads = [(''t1'', ex_thread)], audit_log = [], row_rank = (\<lambda>k. 0), db_now = 0\<rparr>"

definition ex_ctx :: CtxState where
  "ex_ctx = \<lparr>ctx_user = ''alice'', thread_repo = Some ex_repo\<rparr>"

text \<open>
  A store whose thread \<open>t1\<close> has its dev environment in \<open>ChangesRequested\<close>, one whose
  thread has only a staging row, in \<open>Approved\<close>, and one whose thread has no environment
  row.
\<close>

definition ex_thread_cr :: ClientThread where
  "ex_thread_cr = with_states ChangesRequested NotStarted NotStarted"

definition ex_ctx_cr :: CtxState where
  "ex_ctx_cr =
     \<lparr>ctx_user = ''alice'',
      thread_repo = Some (ex_repo\<lparr>threads := [(''t1'', ex_thread_cr)]\<rparr>)\<rparr>"

definition ex_thread_staging :: ClientThread where
  "ex_thread_staging =
     ex_thread\<lparr>environments := [(Staging, (Environment_init Staging 0)\<lparr>env_state := Approved\<rparr>)]\<rparr>"

definition ex_ctx_staging :: CtxState where
  "ex_ctx_staging =
     \<lparr>ctx_user = ''alice'',
      thread_repo = Some (ex_repo\<lparr>threads := [(''t1'', ex_thread_staging)]\<rparr>)\<rparr>"


definition ex_clock :: "nat \<Rightarrow> int" where
  "ex_clock k = 100 + int k"

text \<open>A request that expires at time 10, in a given status, and a manager holding it.\<close>

definition ex_request :: "ApprovalStatus \<Rightarrow> ApprovalRequest" where
  "ex_request st =
     \<lparr>approval_id = ''approval-1'', approval_thread_id = ''t1'',
      approval_environment = Dev, approval_type = environment_progression,
      title = ''Advance dev'', description = ''Advance dev to staging'',
      approvers = [''bob''], approval_evidence = [], status = st,
      approval_created_at = 0, expires_at = Some 10, approved_by = None,
      approved_at = None, rejection_reason = None\<rparr>"

definition ex_manager :: "ApprovalStatus \<Rightarrow> HITLManager" where
  "ex_manager st =
     \<lparr>hitl_thread_repo = None, pending_approvals = [(''approval-1'', ex_request st)],
      approval_timeout_hours = 48\<rparr>"

section \<open>The state machine: transitions\<close>

lemma STATE_ORDER_index:
  "list_index STATE_ORDER NotStarted = Some 0"
  "list_index STATE_ORDER FormsRaised = Some 1"
  "list_index STATE_ORDER CredsIssued = Some 2"
  "list_index STATE_ORDER AccessProvisioned = Some 3"
  "list_index STATE_ORDER Validated = Some 4"
  "list_index STATE_ORDER SignoffSent = Some 5"
  "list_index STATE_ORDER Approved = Some 6"
  "list_index STATE_ORDER Complete = Some 7"
  "list_index STATE_ORDER Blocked = None"
  "list_index STATE_ORDER ChangesRequested = None"
  "list_index STATE_ORDER Abandoned = None"
  by (simp_all add: STATE_ORDER_def)

lemma can_transition_from_changes_requested:
  "target \<notin> SPECIAL_STATES \<Longrightarrow> can_transition ChangesRequested target = Inl NotInList"
  by (simp add: can_transition_def STATE_ORDER_index)

text \<open>
  Claim C2. \<open>can_transition\<close> is meant to return a boolean for every pair of states. From
  \<open>ChangesRequested\<close> to a state of the ordered progression it raises instead: the
  lookup of \<open>ChangesRequested\<close> in \<open>STATE_ORDER\<close> fails with \<open>ValueError\<close>, for
  \<open>NotStarted\<close> as for every other ordered target.
\<close>

theorem can_transition_changes_requested_raises:
  "NotStarted \<in> set STATE_ORDER
   \<and> can_transition ChangesRequested NotStarted = Inl NotInList"
  by (simp add: can_transition_def STATE_ORDER_index SPECIAL_STATES_def)
     (simp add: STATE_ORDER_def)







section \<open>The state machine: validation\<close>

lemma can_transition_Approved_Complete: "can_transition Approved Complete = Inr True"
  by (simp add: can_transition_def SPECIAL_STATES_def STATE_ORDER_index)

text \<open>
  Claim C10. Without a thread argument, the prerequisite for entering \<open>Complete\<close> is not
  checked: from \<open>Approved\<close>, staging and prod validate with no error, whatever the
  evidence. With a thread whose previous environment is there and not \<open>Complete\<close>, the
  same call is invalid, with the one error naming the previous environment.
\<close>

theorem validate_complete_without_thread:
  "validate_transition Approved Complete Staging evidence None = Inr (True, [])
   \<and> validate_transition Approved Complete Prod evidence None = Inr (True, [])
   \<and> (\<forall>prev. map_of (environments thread) Dev = Some prev \<and> env_state prev \<noteq> Complete \<longrightarrow>
         validate_transition Approved Complete Staging evidence (Some thread)
           = Inr (False, [NeedsPrevComplete Staging Dev]))
   \<and> (\<forall>prev. map_of (environments thread) Staging = Some prev \<and> env_state prev \<noteq> Complete \<longrightarrow>
         validate_transition Approved Complete Prod evidence (Some thread)
           = Inr (False, [NeedsPrevComplete Prod Staging]))"
  by (simp add: validate_transition_def can_transition_Approved_Complete)

theorem validate_complete_without_thread_witness:
  "validate_transition Approved Complete Staging ex_evidence None = Inr (True, [])
   \<and> validate_transition Approved Complete Prod ex_evidence None = Inr (True, [])
   \<and> map_of (environments ex_thread) Dev = Some (Environment_init Dev 0)
   \<and> env_state (Environment_init Dev 0) \<noteq> Complete
   \<and> validate_transition Approved Complete Staging ex_evidence (Some ex_thread)
        = Inr (False, [NeedsPrevComplete Staging Dev])
   \<and> map_of (environments ex_thread) Staging = Some (Environment_init Staging 0)
   \<and> env_state (Environment_init Staging 0) \<noteq> Complete
   \<and> validate_transition Approved Complete Prod ex_evidence (Some ex_thread)
        = Inr (False, [NeedsPrevComplete Prod Staging])"
proof -
  have e: "environments ex_thread =
     [(Dev, Environment_init Dev 0), (Staging, Environment_init Staging 0),
      (Prod, Environment_init Prod 0)]"
    by (simp add: ex_thread_def ClientThread_init_def fill_environments_def)
  have d: "map_of (environments ex_thread) Dev = Some (Environment_init Dev 0)"
    and s: "map_of (environments ex_thread) Staging = Some (Environment_init Staging 0)"
    by (simp_all add: e)
  have n: "env_state (Environment_init Dev 0) \<noteq> Complete"
    "env_state (Environment_init Staging 0) \<noteq> Complete"
    by (simp_all add: Environment_init_def)
  show ?thesis
    using validate_complete_without_thread [of ex_evidence ex_thread] d s n
    by simp
qed

section \<open>The state machine: progress\<close>

lemma fold_progress_step:
  "fold progress_step es acc = acc + sum_list (map (\<lambda>e. spec_score (env_state e)) es)"
  by (induction es arbitrary: acc)
     (auto simp: progress_step_def spec_score_def split: option.splits)

lemma spec_score_le: "spec_score s \<le> 8"
  by (cases s) (simp_all add: spec_score_def STATE_ORDER_index, simp_all add: STATE_ORDER_def)

lemma sum_scores_le: "sum_list (map (\<lambda>e. spec_score (env_state e)) es) \<le> 8 * length es"
  by (induction es) (auto intro: add_mono spec_score_le)

lemma completed_states_eq:
  "fold progress_step (map snd (environments thread)) 0 = spec_total thread"
  by (simp add: fold_progress_step spec_total_def comp_def)

lemma spec_total_le: "spec_total thread \<le> 8 * length (environments thread)"
  using sum_scores_le [of "map snd (environments thread)"]
  by (simp add: spec_total_def comp_def)

lemma spec_total_env_states:
  "spec_total thread = sum_list (map (\<lambda>ks. spec_score (snd ks)) (env_states thread))"
  by (simp add: spec_total_def env_states_def comp_def)

lemma calculate_progress_three:
  assumes "length (environments thread) = 3"
  shows "calculate_progress thread = of_nat (spec_total thread) / (8 * 3)"
    and "0 \<le> calculate_progress thread" and "calculate_progress thread \<le> 1"
proof -
  have "spec_total thread \<le> 24" using spec_total_le [of thread] assms by simp
  then have "(of_nat (spec_total thread) :: rat) \<le> 24" by linarith
  then have q: "(of_nat (spec_total thread) :: rat) / 24 \<le> 1" by simp
  have len: "length STATE_ORDER = 8" by (simp add: STATE_ORDER_def)
  have cp: "calculate_progress thread = min (of_nat (spec_total thread) / 24) 1"
    using assms by (simp add: calculate_progress_def Let_def completed_states_eq len)
  show "calculate_progress thread = of_nat (spec_total thread) / (8 * 3)"
    using cp q by simp
  then show "0 \<le> calculate_progress thread" by simp
  show "calculate_progress thread \<le> 1" using cp by simp
qed

lemma length_env_states: "length (env_states thread) = length (environments thread)"
  by (simp add: env_states_def)

text \<open>
  Claim C8. For a thread with three environments, \<open>calculate_progress\<close> is the sum of
  the scores divided by 8 times 3, and lies between 0 and 1. Three \<open>Complete\<close>
  environments give 1, three \<open>NotStarted\<close> ones give 3/24 = 1/8, and dev \<open>Complete\<close> with
  staging and prod \<open>NotStarted\<close> gives 10/24.
\<close>

theorem calculate_progress_formula:
  "(length (environments thread) = 3 \<longrightarrow>
      calculate_progress thread = of_nat (spec_total thread) / (8 * 3)
      \<and> 0 \<le> calculate_progress thread \<and> calculate_progress thread \<le> 1)
   \<and> (env_states thread = [(Dev, Complete), (Staging, Complete), (Prod, Complete)] \<longrightarrow>
        calculate_progress thread = 1)
   \<and> (env_states thread = [(Dev, NotStarted), (Staging, NotStarted), (Prod, NotStarted)] \<longrightarrow>
        calculate_progress thread = 3 / 24 \<and> calculate_progress thread = 1 / 8)
   \<and> (env_states thread = [(Dev, Complete), (Staging, NotStarted), (Prod, NotStarted)] \<longrightarrow>
        calculate_progress thread = 10 / 24)"
proof (intro conjI impI)
  assume "length (environments thread) = 3"
  then show "calculate_progress thread = of_nat (spec_total thread) / (8 * 3)"
    and "0 \<le> calculate_progress thread" and "calculate_progress thread \<le> 1"
    by (rule calculate_progress_three)+
next
  assume s: "env_states thread = [(Dev, Complete), (Staging, Complete), (Prod, Complete)]"
  then have "length (environments thread) = 3"
    using length_env_states [of thread] by simp
  moreover have "spec_total thread = 24"
    by (simp add: spec_total_env_states s spec_score_def STATE_ORDER_def)
  ultimately show "calculate_progress thread = 1"
    by (simp add: calculate_progress_three(1))
next
  assume s: "env_states thread = [(Dev, NotStarted), (Staging, NotStarted), (Prod, NotStarted)]"
  then have "length (environments thread) = 3"
    using length_env_states [of thread] by simp
  moreover have "spec_total thread = 3"
    by (simp add: spec_total_env_states s spec_score_def STATE_ORDER_index)
  ultimately show "calculate_progress thread = 3 / 24" and "calculate_progress thread = 1 / 8"
    by (simp_all add: calculate_progress_three(1))
next
  assume s: "env_states thread = [(Dev, Complete), (Staging, NotStarted), (Prod, NotStarted)]"
  then have "length (environments thread) = 3"
    using length_env_states [of thread] by simp
  moreover have "spec_total thread = 10"
    by (simp add: spec_total_env_states s spec_score_def STATE_ORDER_index)
       (simp add: STATE_ORDER_def)
  ultimately show "calculate_progress thread = 10 / 24"
    by (simp add: calculate_progress_three(1))
qed

theorem calculate_progress_formula_witness:
  "length (environments ex_thread) = 3
   \<and> calculate_progress ex_thread = of_nat (spec_total ex_thread) / (8 * 3)
   \<and> 0 \<le> calculate_progress ex_thread \<and> calculate_progress ex_thread \<le> 1
   \<and> env_states (with_states Complete Complete Complete)
        = [(Dev, Complete), (Staging, Complete), (Prod, Complete)]
   \<and> calculate_progress (with_states Complete Complete Complete) = 1
   \<and> env_states ex_thread = [(Dev, NotStarted), (Staging, NotStarted), (Prod, NotStarted)]
   \<and> calculate_progress ex_thread = 1 / 8
   \<and> env_states (with_states Complete NotStarted NotStarted)
        = [(Dev, Complete), (Staging, NotStarted), (Prod, NotStarted)]
   \<and> calculate_progress (with_states Complete NotStarted NotStarted) = 10 / 24"
proof -
  have e: "environments ex_thread =
     [(Dev, Environment_init Dev 0), (Staging, Environment_init Staging 0),
      (Prod, Environment_init Prod 0)]"
    by (simp add: ex_thread_def ClientThread_init_def fill_environments_def)
  have a: "env_states ex_thread = [(Dev, NotStarted), (Staging, NotStarted), (Prod, NotStarted)]"
    by (simp add: env_states_def e Environment_init_def)
  have b: "env_states (with_states Complete Complete Complete)
        = [(Dev, Complete), (Staging, Complete), (Prod, Complete)]"
    by (simp add: env_states_def with_states_def)
  have c: "env_states (with_states Complete NotStarted NotStarted)
        = [(Dev, Complete), (Staging, NotStarted), (Prod, NotStarted)]"
    by (simp add: env_states_def with_states_def)
  have l: "length (environments ex_thread) = 3" by (simp add: e)
  show ?thesis
    using calculate_progress_formula [of ex_thread]
      calculate_progress_formula [of "with_states Complete Complete Complete"]
      calculate_progress_formula [of "with_states Complete NotStarted NotStarted"]
      a b c l
    by simp
qed

section \<open>The orchestrator: failed validation\<close>

lemma ex_thread_environments:
  "environments ex_thread =
     [(Dev, Environment_init Dev 0), (Staging, Environment_init Staging 0),
      (Prod, Environment_init Prod 0)]"
  by (simp add: ex_thread_def ClientThread_init_def fill_environments_def)

lemma ex_thread_id: "thread_id ex_thread = ''t1''"
  by (simp add: ex_thread_def ClientThread_init_def fill_environments_def)

lemma with_states_id: "thread_id (with_states d s p) = ''t1''"
  by (simp add: with_states_def ex_thread_id)

lemma get_thread_single:
  assumes "thread_id thread = tid" and "environments thread \<noteq> []"
    and "sort_key (\<lambda>kv. row_rank repo (fst kv)) (environments thread) = environments thread"
    and "threads repo = [(tid, thread)]"
  shows "get_thread repo tid utcnow = Some thread"
  using assms by (simp add: get_thread_def fill_environments_def)

lemma ex_get_thread: "get_thread ex_repo ''t1'' utcnow = Some ex_thread"
  by (rule get_thread_single)
     (simp_all add: ex_thread_id ex_thread_environments ex_repo_def)

lemma ex_get_thread_cr:
  "get_thread (ex_repo\<lparr>threads := [(''t1'', ex_thread_cr)]\<rparr>) ''t1'' utcnow = Some ex_thread_cr"
  by (rule get_thread_single)
     (simp_all add: ex_thread_cr_def with_states_id, simp_all add: with_states_def ex_repo_def)

lemma ex_get_thread_staging:
  "get_thread (ex_repo\<lparr>threads := [(''t1'', ex_thread_staging)]\<rparr>) ''t1'' utcnow
     = Some ex_thread_staging"
  by (rule get_thread_single)
     (simp_all add: ex_thread_staging_def ex_thread_id ex_repo_def)

lemma ex_env_state: "env_state (Environment_init Dev 0) = NotStarted"
  by (simp add: Environment_init_def)

lemma update_env_state_invalid:
  assumes "thread_repo ctx = Some repo"
    and "get_thread repo tid utcnow = Some thread"
    and "map_of (environments thread) env = Some env_obj"
    and "validate_transition (env_state env_obj) new_state env evidence (Some thread)
           = Inr (False, errors)"
  shows "update_env_state ctx tid env new_state evidence reason utcnow
           = (Inl (InvalidStateTransition errors), ctx)"
  using assms by (simp add: update_env_state_def)

lemma update_env_state_validation_raises:
  assumes "thread_repo ctx = Some repo"
    and "get_thread repo tid utcnow = Some thread"
    and "map_of (environments thread) env = Some env_obj"
    and "validate_transition (env_state env_obj) new_state env evidence (Some thread) = Inl e"
  shows "update_env_state ctx tid env new_state evidence reason utcnow = (Inl e, ctx)"
  using assms by (simp add: update_env_state_def)

lemma ex_validate_skip:
  "validate_transition NotStarted Validated Dev Evidence_default (Some ex_thread)
     = Inr (False, [InvalidTransition NotStarted Validated])"
  by (simp add: validate_transition_def can_transition_def SPECIAL_STATES_def STATE_ORDER_index)

lemma ex_validate_no_ticket:
  "validate_transition NotStarted FormsRaised Dev Evidence_default (Some ex_thread)
     = Inr (False, [NeedsTicket])"
  by (simp add: validate_transition_def can_transition_def SPECIAL_STATES_def STATE_ORDER_index
        Evidence_default_def)

lemma validate_from_changes_requested:
  "target \<notin> SPECIAL_STATES \<Longrightarrow>
     validate_transition ChangesRequested target env evidence thread = Inl NotInList"
  by (simp add: validate_transition_def can_transition_from_changes_requested)

lemma ex_validate_key_error:
  "validate_transition Approved Complete Staging Evidence_default (Some ex_thread_staging)
     = Inl (EnvKeyError Dev)"
  by (simp add: validate_transition_def can_transition_Approved_Complete ex_thread_staging_def)

text \<open>
  Claim C4, as stated, fails: on the stored thread \<open>t1\<close>, whose dev environment is
  \<open>NotStarted\<close>, the move to \<open>Validated\<close> does not validate, and \<open>update_env_state\<close>
  returns no result at all: it raises \<open>ValueError\<close>.
\<close>

theorem update_env_state_raises_counterexample:
  "get_thread ex_repo ''t1'' ex_clock = Some ex_thread
   \<and> map_of (environments ex_thread) Dev = Some (Environment_init Dev 0)
   \<and> validate_transition (env_state (Environment_init Dev 0)) Validated Dev Evidence_default
        (Some ex_thread) = Inr (False, [InvalidTransition NotStarted Validated])
   \<and> (\<nexists>r. fst (update_env_state ex_ctx ''t1'' Dev Validated Evidence_default ''skip'' ex_clock)
        = Inr r)"
proof -
  have e: "map_of (environments ex_thread) Dev = Some (Environment_init Dev 0)"
    by (simp add: ex_thread_environments)
  have u: "update_env_state ex_ctx ''t1'' Dev Validated Evidence_default ''skip'' ex_clock
             = (Inl (InvalidStateTransition [InvalidTransition NotStarted Validated]), ex_ctx)"
    by (rule update_env_state_invalid [where repo = ex_repo and thread = ex_thread
          and env_obj = "Environment_init Dev 0"])
       (simp_all add: ex_get_thread e ex_env_state ex_validate_skip, simp add: ex_ctx_def)
  show ?thesis using ex_get_thread e ex_env_state u ex_validate_skip by simp
qed

text \<open>
  Claim C4, amended. For an existing thread and environment whose transition validation
  fails, \<open>update_env_state\<close> returns no result. When \<open>validate_transition\<close> reports the
  transition invalid, it raises the \<open>ValueError\<close> "Invalid state transition", which
  carries the full error list of \<open>validate_transition\<close>. When \<open>validate_transition\<close>
  itself raises (the \<open>ValueError\<close> of \<open>list.index\<close> from \<open>ChangesRequested\<close> to a target
  that is not a special state, the \<open>KeyError\<close> of a missing previous environment), that
  exception reaches the caller as it is, with no error list.
\<close>

theorem update_env_state_invalid_raises:
  assumes "thread_repo ctx = Some repo"
    and "get_thread repo tid utcnow = Some thread"
    and "map_of (environments thread) env = Some env_obj"
  shows "(\<forall>errors. validate_transition (env_state env_obj) new_state env evidence (Some thread)
                     = Inr (False, errors) \<longrightarrow>
            fst (update_env_state ctx tid env new_state evidence reason utcnow)
              = Inl (InvalidStateTransition errors))
       \<and> (\<forall>e. validate_transition (env_state env_obj) new_state env evidence (Some thread)
                 = Inl e \<longrightarrow>
            fst (update_env_state ctx tid env new_state evidence reason utcnow) = Inl e)
       \<and> ((\<nexists>errors. validate_transition (env_state env_obj) new_state env evidence (Some thread)
                      = Inr (True, errors)) \<longrightarrow>
            (\<nexists>r. fst (update_env_state ctx tid env new_state evidence reason utcnow) = Inr r))
       \<and> (env_state env_obj = ChangesRequested \<and> new_state \<notin> SPECIAL_STATES \<longrightarrow>
            fst (update_env_state ctx tid env new_state evidence reason utcnow) = Inl NotInList)"
proof (intro conjI allI impI)
  fix errors
  assume "validate_transition (env_state env_obj) new_state env evidence (Some thread)
            = Inr (False, errors)"
  then show "fst (update_env_state ctx tid env new_state evidence reason utcnow)
               = Inl (InvalidStateTransition errors)"
    using assms by (simp add: update_env_state_invalid)
next
  fix e
  assume "validate_transition (env_state env_obj) new_state env evidence (Some thread) = Inl e"
  then show "fst (update_env_state ctx tid env new_state evidence reason utcnow) = Inl e"
    using assms by (simp add: update_env_state_validation_raises)
next
  assume n: "\<nexists>errors. validate_transition (env_state env_obj) new_state env evidence
                         (Some thread) = Inr (True, errors)"
  show "\<nexists>r. fst (update_env_state ctx tid env new_state evidence reason utcnow) = Inr r"
  proof (cases "validate_transition (env_state env_obj) new_state env evidence (Some thread)")
    case (Inl e)
    then show ?thesis using assms by (simp add: update_env_state_validation_raises)
  next
    case (Inr res)
    then obtain errors where
      "validate_transition (env_state env_obj) new_state env evidence (Some thread)
         = Inr (False, errors)"
      using n by (cases res) auto
    then show ?thesis using assms by (simp add: update_env_state_invalid)
  qed
next
  assume "env_state env_obj = ChangesRequested \<and> new_state \<notin> SPECIAL_STATES"
  then have "validate_transition (env_state env_obj) new_state env evidence (Some thread)
               = Inl NotInList"
    by (simp add: validate_from_changes_requested)
  then show "fst (update_env_state ctx tid env new_state evidence reason utcnow) = Inl NotInList"
    using assms by (simp add: update_env_state_validation_raises)
qed

theorem update_env_state_invalid_raises_witness:
  "thread_repo ex_ctx = Some ex_repo
   \<and> get_thread ex_repo ''t1'' ex_clock = Some ex_thread
   \<and> map_of (environments ex_thread) Dev = Some (Environment_init Dev 0)
   \<and> validate_transition (env_state (Environment_init Dev 0)) FormsRaised Dev Evidence_default
        (Some ex_thread) = Inr (False, [NeedsTicket])
   \<and> (\<nexists>errors. validate_transition (env_state (Environment_init Dev 0)) FormsRaised Dev
          Evidence_default (Some ex_thread) = Inr (True, errors))
   \<and> fst (update_env_state ex_ctx ''t1'' Dev FormsRaised Evidence_default ''go'' ex_clock)
        = Inl (InvalidStateTransition [NeedsTicket])
   \<and> (\<nexists>r. fst (update_env_state ex_ctx ''t1'' Dev FormsRaised Evidence_default ''go'' ex_clock)
        = Inr r)
   \<and> get_thread (the (thread_repo ex_ctx_cr)) ''t1'' ex_clock = Some ex_thread_cr
   \<and> map_option env_state (map_of (environments ex_thread_cr) Dev) = Some ChangesRequested
   \<and> NotStarted \<notin> SPECIAL_STATES
   \<and> fst (update_env_state ex_ctx_cr ''t1'' Dev NotStarted Evidence_default ''back'' ex_clock)
        = Inl NotInList
   \<and> get_thread (the (thread_repo ex_ctx_staging)) ''t1'' ex_clock = Some ex_thread_staging
   \<and> validate_transition Approved Complete Staging Evidence_default (Some ex_thread_staging)
        = Inl (EnvKeyError Dev)
   \<and> fst (update_env_state ex_ctx_staging ''t1'' Staging Complete Evidence_default ''done''
             ex_clock) = Inl (EnvKeyError Dev)"
proof -
  have r: "thread_repo ex_ctx = Some ex_repo" by (simp add: ex_ctx_def)
  have e: "map_of (environments ex_thread) Dev = Some (Environment_init Dev 0)"
    by (simp add: ex_thread_environments)
  have v: "validate_transition (env_state (Environment_init Dev 0)) FormsRaised Dev
             Evidence_default (Some ex_thread) = Inr (False, [NeedsTicket])"
    by (simp add: ex_env_state ex_validate_no_ticket)
  have a: "fst (update_env_state ex_ctx ''t1'' Dev FormsRaised Evidence_default ''go'' ex_clock)
             = Inl (InvalidStateTransition [NeedsTicket])"
    and a': "\<nexists>r. fst (update_env_state ex_ctx ''t1'' Dev FormsRaised Evidence_default ''go''
                        ex_clock) = Inr r"
    using update_env_state_invalid_raises [OF r ex_get_thread e,
        where new_state = FormsRaised and evidence = Evidence_default and reason = "''go''"] v
    by simp_all
  have rc: "thread_repo ex_ctx_cr = Some (ex_repo\<lparr>threads := [(''t1'', ex_thread_cr)]\<rparr>)"
    by (simp add: ex_ctx_cr_def)
  have ec: "map_of (environments ex_thread_cr) Dev
              = Some ((Environment_init Dev 0)\<lparr>env_state := ChangesRequested\<rparr>)"
    by (simp add: ex_thread_cr_def with_states_def)
  have ns: "NotStarted \<notin> SPECIAL_STATES" by (simp add: SPECIAL_STATES_def)
  have b: "fst (update_env_state ex_ctx_cr ''t1'' Dev NotStarted Evidence_default ''back''
                  ex_clock) = Inl NotInList"
    using update_env_state_invalid_raises [OF rc ex_get_thread_cr ec,
        where new_state = NotStarted and evidence = Evidence_default and reason = "''back''"] ns
    by simp
  have rs: "thread_repo ex_ctx_staging
              = Some (ex_repo\<lparr>threads := [(''t1'', ex_thread_staging)]\<rparr>)"
    by (simp add: ex_ctx_staging_def)
  have es: "map_of (environments ex_thread_staging) Staging
              = Some ((Environment_init Staging 0)\<lparr>env_state := Approved\<rparr>)"
    by (simp add: ex_thread_staging_def)
  have c: "fst (update_env_state ex_ctx_staging ''t1'' Staging Complete Evidence_default ''done''
                  ex_clock) = Inl (EnvKeyError Dev)"
    using update_env_state_invalid_raises [OF rs ex_get_thread_staging es,
        where new_state = Complete and evidence = Evidence_default and reason = "''done''"]
      ex_validate_key_error
    by simp
  show ?thesis
    using r ex_get_thread e v a a' rc ex_get_thread_cr ec ns b rs ex_get_thread_staging
      ex_validate_key_error c
    by simp
qed

text \<open>
  Claim C5. When \<open>validate_transition\<close> reports the transition invalid,
  \<open>update_env_state\<close> leaves the context as it was: the store holds the same threads
  (states, evidence, timestamps, blockers and next actions) and the same audit log.
\<close>

theorem update_env_state_invalid_atomic:
  assumes "thread_repo ctx = Some repo"
    and "get_thread repo tid utcnow = Some thread"
    and "map_of (environments thread) env = Some env_obj"
    and "validate_transition (env_state env_obj) new_state env evidence (Some thread)
           = Inr (False, errors)"
  shows "snd (update_env_state ctx tid env new_state evidence reason utcnow) = ctx
         \<and> thread_repo (snd (update_env_state ctx tid env new_state evidence reason utcnow))
             = Some repo"
  using assms by (simp add: update_env_state_invalid)

theorem update_env_state_invalid_atomic_witness:
  "thread_repo ex_ctx = Some ex_repo
   \<and> get_thread ex_repo ''t1'' ex_clock = Some ex_thread
   \<and> map_of (environments ex_thread) Dev = Some (Environment_init Dev 0)
   \<and> validate_transition (env_state (Environment_init Dev 0)) Validated Dev ex_evidence
        (Some ex_thread) = Inr (False, [InvalidTransition NotStarted Validated])
   \<and> snd (update_env_state ex_ctx ''t1'' Dev Validated ex_evidence ''skip'' ex_clock) = ex_ctx"
proof -
  have r: "thread_repo ex_ctx = Some ex_repo" by (simp add: ex_ctx_def)
  have e: "map_of (environments ex_thread) Dev = Some (Environment_init Dev 0)"
    by (simp add: ex_thread_environments)
  have v: "validate_transition (env_state (Environment_init Dev 0)) Validated Dev
             ex_evidence (Some ex_thread) = Inr (False, [InvalidTransition NotStarted Validated])"
    by (simp add: ex_env_state validate_transition_def can_transition_def SPECIAL_STATES_def
          STATE_ORDER_index)
  show ?thesis
    using update_env_state_invalid_atomic [OF r ex_get_thread e v, where reason = "''skip''"]
      r ex_get_thread e v
    by simp
qed

section \<open>The orchestrator: the audit entry\<close>

lemma update_thread_audit_log:
  "update_thread repo thread = Inr repo1 \<Longrightarrow> audit_log repo1 = audit_log repo"
  by (auto simp: update_thread_def split: option.splits if_splits)

lemma update_env_state_success_audit:
  assumes "thread_repo ctx = Some repo"
    and "update_env_state ctx tid env new_state evidence reason utcnow = (Inr r, ctx1)"
  shows "audit_details ctx1 = audit_details ctx @
           [[(''environment'', DStr (EnvName_value env)),
             (''from_state'', DStr (EnvState_value new_state)),
             (''to_state'', DStr (EnvState_value new_state)),
             (''reason'', DStr reason),
             (''evidence_count'',
                DInt (int (length (tickets evidence) + length (screenshots evidence)
                           + length (emails evidence))))]]"
  using assms
  by (auto simp: update_env_state_def audit_details_def add_audit_log_def Let_def
        update_thread_audit_log
      split: option.splits sum.splits if_splits prod.splits)

lemma validate_to_Blocked:
  "validate_transition current Blocked env evidence thread = Inr (True, [])"
  by (simp add: validate_transition_def can_transition_def SPECIAL_STATES_def)

lemma ex_blocked_succeeds:
  "fst (update_env_state ex_ctx ''t1'' Dev Blocked Evidence_default ''hold'' ex_clock) = Inr True"
proof -
  have s: "json_serialisable (Environment_init n 0)" for n
    by (simp add: json_serialisable_def Environment_init_def Evidence_default_def)
  have b: "json_serialisable ((Environment_init Dev 0)\<lparr>env_state := Blocked,
             env_evidence := Evidence_default, last_updated := t\<rparr>)" for t
    by (simp add: json_serialisable_def Environment_init_def Evidence_default_def)
  show ?thesis
    by (simp add: update_env_state_def ex_ctx_def ex_get_thread ex_thread_environments
          validate_to_Blocked Let_def update_thread_def ex_thread_id s b)
       (simp add: ex_repo_def s b)
qed

text \<open>
  Claim C6. The audit entry of a successful transition is meant to record the state
  before the transition as \<open>from_state\<close>. It records the new state: on the stored thread
  \<open>t1\<close>, whose dev environment is \<open>NotStarted\<close>, the transition to \<open>Blocked\<close> with empty
  evidence succeeds and the one audit entry has \<open>from_state\<close> = \<open>Blocked\<close>.
\<close>

theorem update_env_state_audit_from_state:
  "get_thread ex_repo ''t1'' ex_clock = Some ex_thread
   \<and> map_option env_state (map_of (environments ex_thread) Dev) = Some NotStarted
   \<and> fst (update_env_state ex_ctx ''t1'' Dev Blocked Evidence_default ''hold'' ex_clock) = Inr True
   \<and> audit_details (snd (update_env_state ex_ctx ''t1'' Dev Blocked Evidence_default ''hold''
                            ex_clock))
       = [[(''environment'', DStr ''dev''),
           (''from_state'', DStr ''Blocked''),
           (''to_state'', DStr ''Blocked''),
           (''reason'', DStr ''hold''),
           (''evidence_count'', DInt 0)]]"
proof -
  obtain ctx1 where u:
    "update_env_state ex_ctx ''t1'' Dev Blocked Evidence_default ''hold'' ex_clock
       = (Inr True, ctx1)"
    using ex_blocked_succeeds by (metis prod.collapse)
  have r: "thread_repo ex_ctx = Some ex_repo"
    by (simp add: ex_ctx_def)
  have "audit_details ctx1 = audit_details ex_ctx @
           [[(''environment'', DStr (EnvName_value Dev)),
             (''from_state'', DStr (EnvState_value Blocked)),
             (''to_state'', DStr (EnvState_value Blocked)),
             (''reason'', DStr ''hold''),
             (''evidence_count'',
                DInt (int (length (tickets Evidence_default)
                           + length (screenshots Evidence_default)
                           + length (emails Evidence_default))))]]"
    by (rule update_env_state_success_audit [OF r u])
  then have a: "audit_details ctx1 =
           [[(''environment'', DStr ''dev''),
             (''from_state'', DStr ''Blocked''),
             (''to_state'', DStr ''Blocked''),
             (''reason'', DStr ''hold''),
             (''evidence_count'', DInt 0)]]"
    by (simp add: audit_details_def ex_ctx_def ex_repo_def Evidence_default_def)
  have s: "map_option env_state (map_of (environments ex_thread) Dev) = Some NotStarted"
    by (simp add: ex_thread_environments Environment_init_def)
  show ?thesis using u a s ex_get_thread by simp
qed

section \<open>The three environments of a thread\<close>






















section \<open>The approval manager\<close>

lemma approve_request_not_pending:
  "map_of (pending_approvals m) aid = Some a \<Longrightarrow> status a \<noteq> pending \<Longrightarrow>
     approve_request m aid approver comments utcnow = (False, m)"
  by (simp add: approve_request_def)

lemma reject_request_not_pending:
  "map_of (pending_approvals m) aid = Some a \<Longrightarrow> status a \<noteq> pending \<Longrightarrow>
     reject_request m aid approver reason utcnow = (False, m)"
  by (simp add: reject_request_def)

lemma sweep_keeps_terminal:
  "map_of rows aid = Some a \<Longrightarrow> status a \<noteq> pending \<Longrightarrow>
     map_of (fst (sweep now utcnow rows acc)) aid = Some a"
  by (induction now utcnow rows acc rule: sweep.induct)
     (auto simp: Let_def split: option.splits if_splits)

lemma check_expired_keeps_terminal:
  "map_of (pending_approvals m) aid = Some a \<Longrightarrow> status a \<noteq> pending \<Longrightarrow>
     map_of (pending_approvals (snd (check_expired_approvals m utcnow))) aid = Some a"
  by (simp add: check_expired_approvals_def Let_def sweep_keeps_terminal)

lemma ex_status: "status (ex_request st) = st"
  by (simp add: ex_request_def)

lemma ex_past_expiry: "past_expiry (ex_request st) (ex_clock 0)"
  by (simp add: past_expiry_def ex_request_def ex_clock_def)

text \<open>
  Claim C1. A request that has reached a terminal status is meant to keep it.
  \<open>get_pending_approvals\<close> does not test the status before it marks a request
  expired: the approved request of \<open>ex_manager approved\<close>, whose deadline 10 has passed
  at time 100, is \<open>expired\<close> after the call.
\<close>

theorem get_pending_approvals_overwrites_terminal:
  "status_of (ex_manager approved) ''approval-1'' = Some approved
   \<and> past_expiry (ex_request approved) (ex_clock 0)
   \<and> status_of (snd (get_pending_approvals (ex_manager approved) None ex_clock)) ''approval-1''
       = Some expired
   \<and> status_of (snd (check_expired_approvals (ex_manager approved) ex_clock)) ''approval-1''
       = Some approved"
proof -
  have a: "status_of (ex_manager approved) ''approval-1'' = Some approved"
    by (simp add: status_of_def ex_manager_def ex_status)
  have b: "status_of (snd (get_pending_approvals (ex_manager approved) None ex_clock))
             ''approval-1'' = Some expired"
    by (simp add: status_of_def ex_manager_def get_pending_approvals_def selected_def
          ex_past_expiry Let_def)
  have m: "map_of (pending_approvals (ex_manager approved)) ''approval-1''
             = Some (ex_request approved)"
    by (simp add: ex_manager_def)
  have c: "status_of (snd (check_expired_approvals (ex_manager approved) ex_clock))
             ''approval-1'' = Some approved"
    using check_expired_keeps_terminal [OF m, of ex_clock]
    by (simp add: status_of_def ex_status)
  show ?thesis using a b c ex_past_expiry by simp
qed

text \<open>
  Claim C7. \<open>reject_request\<close> is meant to fail on a request that is past its expiry, as
  \<open>approve_request\<close> does. It has no expiry test: the pending request of
  \<open>ex_manager pending\<close>, whose deadline 10 has passed at time 100, is rejected and the
  call returns true, where \<open>approve_request\<close> returns false and marks it expired.
\<close>

theorem reject_request_ignores_expiry:
  "status_of (ex_manager pending) ''approval-1'' = Some pending
   \<and> past_expiry (ex_request pending) (ex_clock 0)
   \<and> fst (reject_request (ex_manager pending) ''approval-1'' ''bob'' ''late'' ex_clock) = True
   \<and> status_of (snd (reject_request (ex_manager pending) ''approval-1'' ''bob'' ''late'' ex_clock))
        ''approval-1'' = Some rejected
   \<and> fst (approve_request (ex_manager pending) ''approval-1'' ''bob'' ''ok'' ex_clock) = False
   \<and> status_of (snd (approve_request (ex_manager pending) ''approval-1'' ''bob'' ''ok'' ex_clock))
        ''approval-1'' = Some expired"
proof -
  have a: "status_of (ex_manager pending) ''approval-1'' = Some pending"
    by (simp add: status_of_def ex_manager_def ex_status)
  have r: "reject_request (ex_manager pending) ''approval-1'' ''bob'' ''late'' ex_clock =
      (True, (ex_manager pending)\<lparr>pending_approvals :=
          [(''approval-1'', (ex_request pending)\<lparr>status := rejected, approved_by := Some ''bob'',
               approved_at := Some (ex_clock 0), rejection_reason := Some ''late''\<rparr>)]\<rparr>)"
    by (simp add: reject_request_def ex_manager_def ex_status hitl_log_def Let_def)
  have p: "approve_request (ex_manager pending) ''approval-1'' ''bob'' ''ok'' ex_clock =
      (False, (ex_manager pending)\<lparr>pending_approvals :=
          [(''approval-1'', (ex_request pending)\<lparr>status := expired\<rparr>)]\<rparr>)"
    by (simp add: approve_request_def ex_manager_def ex_status ex_past_expiry)
  show ?thesis
    using a ex_past_expiry by (simp add: r p status_of_def)
qed

end
